theory Spec2Isabelle
  imports Complex_Main "HOL-Library.AList"
begin

section \<open>Data model\<close>

text \<open>
  The program (\<^verbatim>\<open>src/DQ/dq_checks.py\<close>, class \<^verbatim>\<open>DQ\<close>) keeps its findings in
  one pandas DataFrame, \<^verbatim>\<open>self.data_quality_output\<close>, and every checker loads
  its input tables with \<^verbatim>\<open>pd.read_csv\<close>.

  A cell of a DataFrame is an integer (a cell of an \<^verbatim>\<open>int64\<close> column, or a
  Python \<^verbatim>\<open>int\<close>), a float, a string or the missing value. A float is the
  rational its double denotes. Strings are their UTF-8 bytes.
\<close>

datatype val = IntV int | Num rat | Str string | NaN

text \<open>
  A row carries its cells by column label; a label that a row does not carry
  reads as the missing value, which is what \<^verbatim>\<open>pd.concat\<close> puts into the
  columns a row did not have. A frame is its column index together with its
  rows. The row index is not modelled (every concatenation in the program
  passes \<^verbatim>\<open>ignore_index=True\<close>).
\<close>

type_synonym row = "(string \<times> val) list"

record frame =
  columns :: "string list"
  rows :: "row list"

text \<open>The exceptions that the modelled library calls raise.\<close>

datatype exn = FileNotFoundError | ParserError | TypeError | ValueError

text \<open>A Python number passed as a threshold: an \<^verbatim>\<open>int\<close> or a \<^verbatim>\<open>float\<close>.\<close>

datatype pynum = PyInt int | PyFloat rat

text \<open>
  What the program takes from its surroundings:
  \<^item> \<open>read_csv\<close>: the file system as \<^verbatim>\<open>pd.read_csv\<close> sees it, from a path to a
    frame or to the exception raised;
  \<^item> \<open>iter_rank\<close>: the iteration order of the Python \<^verbatim>\<open>set\<close> that
    \<^verbatim>\<open>set(a) & set(b)\<close> builds from two lists of labels, which the language
    leaves open: its members come out by ascending \<open>iter_rank a b\<close>;
  \<^item> \<open>unicode_upper\<close>: \<^verbatim>\<open>str.upper\<close> on a string with characters outside
    ASCII, as the Unicode tables of the interpreter define it;
  \<^item> \<open>format_f\<close>: \<^verbatim>\<open>format(x, '.nf')\<close> on a number;
  \<^item> \<open>str_num\<close>: \<^verbatim>\<open>str(x)\<close> on a number (an \<^verbatim>\<open>int\<close> or a \<^verbatim>\<open>float\<close>).
\<close>

record pyenv =
  read_csv :: "string \<Rightarrow> exn + frame"
  iter_rank :: "string list \<Rightarrow> string list \<Rightarrow> string \<Rightarrow> nat"
  unicode_upper :: "string \<Rightarrow> string"
  format_f :: "nat \<Rightarrow> rat \<Rightarrow> string"
  str_num :: "pynum \<Rightarrow> string"

text \<open>
  The fields of \<^verbatim>\<open>DQ\<close> that the checkers, the formatter and the summary read
  or write. (\<^verbatim>\<open>check_id\<close>, \<^verbatim>\<open>check_name\<close>, \<^verbatim>\<open>client\<close>, \<^verbatim>\<open>input_tables\<close>,
  \<^verbatim>\<open>th_values\<close> and \<^verbatim>\<open>lvl_data\<close> are read by \<^verbatim>\<open>check\<close> only, which passes
  them on as arguments.)
\<close>

record DQ =
  data_path :: string
  data_quality_output :: frame

section \<open>Python numbers\<close>

text \<open>
  A Python \<^verbatim>\<open>float\<close> is an IEEE 754 double. \<open>fl q\<close> is the double nearest to
  the rational \<open>q\<close>, ties going to the even mantissa: 53 bits of mantissa
  above the exponent \<open>- 1022\<close>, and multiples of \<open>2 ^ - 1074\<close> below
  (overflow to infinity is left out). It is what converting an integer to
  \<^verbatim>\<open>float64\<close> gives, and what \<^verbatim>\<open>/\<close> and \<^verbatim>\<open>*\<close> on floats return for the exact
  quotient and product.
\<close>

definition pow2 :: "int \<Rightarrow> rat" where
  "pow2 e = (if e \<ge> 0 then 2 ^ nat e else 1 / 2 ^ nat (- e))"

function bit_length :: "int \<Rightarrow> int" where
  "bit_length n = (if n \<le> 0 then 0 else 1 + bit_length (n div 2))"
  by pat_completeness auto
termination
  by (relation "measure nat") auto

declare bit_length.simps [simp del]

definition round_half_even :: "rat \<Rightarrow> int" where
  "round_half_even x =
     (let f = \<lfloor>x\<rfloor>; r = x - of_int f
      in if r < 1 / 2 then f else if 1 / 2 < r then f + 1 else if even f then f else f + 1)"

definition fl :: "rat \<Rightarrow> rat" where
  "fl q =
     (if q = 0 then 0
      else let a = \<bar>q\<bar>;
               e0 = bit_length (fst (quotient_of a)) - bit_length (snd (quotient_of a));
               e = (if pow2 e0 \<le> a then e0 else e0 - 1);
               u = pow2 (max e (- 1022) - 52)
           in sgn q * of_int (round_half_even (a / u)) * u)"

text \<open>The value of a Python number, and the cell a scalar assignment writes.\<close>

definition num_of :: "pynum \<Rightarrow> rat" where
  "num_of t = (case t of PyInt i \<Rightarrow> of_int i | PyFloat q \<Rightarrow> q)"

definition num_val :: "pynum \<Rightarrow> val" where
  "num_val t = (case t of PyInt i \<Rightarrow> IntV i | PyFloat q \<Rightarrow> Num q)"

text \<open>A cell cast to \<^verbatim>\<open>float64\<close>: an integer becomes the nearest double.\<close>

definition to_float :: "val \<Rightarrow> val" where
  "to_float v = (case v of IntV i \<Rightarrow> Num (fl (of_int i)) | _ \<Rightarrow> v)"

section \<open>Python strings\<close>

text \<open>\<^verbatim>\<open>s.startswith(p)\<close>, \<^verbatim>\<open>p in s\<close>, \<^verbatim>\<open>s.endswith(p)\<close>.\<close>

fun startswith :: "string \<Rightarrow> string \<Rightarrow> bool" where
  "startswith s [] = True"
| "startswith [] (p # ps) = False"
| "startswith (c # cs) (p # ps) = (c = p \<and> startswith cs ps)"

fun str_in :: "string \<Rightarrow> string \<Rightarrow> bool" where
  "str_in p [] = (p = [])"
| "str_in p (c # cs) = (startswith (c # cs) p \<or> str_in p cs)"

definition endswith :: "string \<Rightarrow> string \<Rightarrow> bool" where
  "endswith s p = startswith (rev s) (rev p)"

text \<open>
  \<^verbatim>\<open>s.upper()\<close>: on an ASCII string the letters a to z go to A to Z and
  every other character stays; a string with a byte outside ASCII is
  upper-cased by the Unicode tables of the environment.
\<close>

definition upper_char :: "char \<Rightarrow> char" where
  "upper_char c =
     (let n = (of_char c :: nat)
      in if 97 \<le> n \<and> n \<le> 122 then char_of (n - 32) else c)"

definition is_ascii :: "string \<Rightarrow> bool" where
  "is_ascii s = list_all (\<lambda>c. (of_char c :: nat) < 128) s"

definition upper :: "pyenv \<Rightarrow> string \<Rightarrow> string" where
  "upper env s = (if is_ascii s then map upper_char s else unicode_upper env s)"

text \<open>\<^verbatim>\<open>str(n)\<close> on a non-negative \<^verbatim>\<open>int\<close>: its decimal digits.\<close>

definition digit_char :: "nat \<Rightarrow> char" where
  "digit_char d = char_of (48 + d)"

function str_nat :: "nat \<Rightarrow> string" where
  "str_nat n = (if n < 10 then [digit_char n] else str_nat (n div 10) @ [digit_char (n mod 10)])"
  by pat_completeness auto
termination
  by (relation "measure id") auto

declare str_nat.simps [simp del]

section \<open>The pandas operations the program calls\<close>

text \<open>\<^verbatim>\<open>row[c]\<close>; missing where the row has no such label.\<close>

definition cell :: "row \<Rightarrow> string \<Rightarrow> val" where
  "cell r c = (case map_of r c of Some v \<Rightarrow> v | None \<Rightarrow> NaN)"

text \<open>\<^verbatim>\<open>df[c]\<close>: the values of one column, top to bottom.\<close>

definition column_values :: "frame \<Rightarrow> string \<Rightarrow> val list" where
  "column_values df c = map (\<lambda>r. cell r c) (rows df)"

text \<open>\<^verbatim>\<open>df.empty\<close>: no rows or no columns.\<close>

definition empty_frame :: "frame \<Rightarrow> bool" where
  "empty_frame df = (rows df = [] \<or> columns df = [])"

text \<open>\<^verbatim>\<open>pd.DataFrame()\<close>.\<close>

definition DataFrame :: frame where
  "DataFrame = \<lparr>columns = [], rows = []\<rparr>"

text \<open>
  The dtype of a column, read off its cells: \<^verbatim>\<open>object\<close> when a cell is a
  string, \<^verbatim>\<open>int64\<close> when every cell is an integer, \<^verbatim>\<open>float64\<close> otherwise
  (a float or a missing value among numbers).
\<close>

datatype dtype = Int64 | Float64 | Object

definition is_Str :: "val \<Rightarrow> bool" where
  "is_Str v = (case v of Str s \<Rightarrow> True | _ \<Rightarrow> False)"

definition is_IntV :: "val \<Rightarrow> bool" where
  "is_IntV v = (case v of IntV i \<Rightarrow> True | _ \<Rightarrow> False)"

definition dtype_of :: "val list \<Rightarrow> dtype" where
  "dtype_of vs =
     (if \<exists>v \<in> set vs. is_Str v then Object
      else if \<forall>v \<in> set vs. is_IntV v then Int64
      else Float64)"

text \<open>
  \<^verbatim>\<open>pd.concat([a, b], ignore_index=True)\<close>: the rows of \<open>a\<close>, then those of
  \<open>b\<close>; the columns of \<open>a\<close>, then those only \<open>b\<close> has. A column of the result
  that holds integers next to floats or missing values (a row of the other
  frame had a float there, or no such column) is \<^verbatim>\<open>float64\<close>, and its
  integers are cast to doubles.
\<close>

definition upcast_row :: "string list \<Rightarrow> row \<Rightarrow> row" where
  "upcast_row floats r = map (\<lambda>(c, v). (c, if c \<in> set floats then to_float v else v)) r"

definition concat_frames :: "frame \<Rightarrow> frame \<Rightarrow> frame" where
  "concat_frames a b =
     (let cols = columns a @ filter (\<lambda>c. c \<notin> set (columns a)) (columns b);
          rs = rows a @ rows b;
          floats = filter (\<lambda>c. dtype_of (map (\<lambda>r. cell r c) rs) = Float64) cols
      in \<lparr>columns = cols, rows = map (upcast_row floats) rs\<rparr>)"

text \<open>
  \<^verbatim>\<open>df[c] = ...\<close>: writes column \<open>c\<close> in every row, in place where the frame
  has the column and as a new last column otherwise. The value may depend on
  the row (a column assigned from a Series) or not (a scalar).
\<close>

definition assign_col :: "string \<Rightarrow> (row \<Rightarrow> val) \<Rightarrow> frame \<Rightarrow> frame" where
  "assign_col c f df =
     \<lparr>columns = (if c \<in> set (columns df) then columns df else columns df @ [c]),
      rows = map (\<lambda>r. AList.update c (f r) r) (rows df)\<rparr>"

text \<open>\<^verbatim>\<open>df.drop(c, axis=1)\<close>, for a label the frame has.\<close>

definition drop_col :: "string \<Rightarrow> frame \<Rightarrow> frame" where
  "drop_col c df =
     \<lparr>columns = removeAll c (columns df), rows = map (AList.delete c) (rows df)\<rparr>"

text \<open>\<^verbatim>\<open>df[mask]\<close>: the rows at which a boolean Series is true.\<close>

definition getitem_mask :: "frame \<Rightarrow> bool list \<Rightarrow> frame" where
  "getitem_mask df msk =
     \<lparr>columns = columns df, rows = map fst (filter snd (zip (rows df) msk))\<rparr>"

text \<open>
  \<^verbatim>\<open>df[cs]\<close> for a list of labels: the frame cut down to these columns, in
  this order. (pandas raises \<^verbatim>\<open>KeyError\<close> for a label outside the frame; the
  program passes only labels common to both tables of a pair.)
\<close>

definition row_cols :: "string list \<Rightarrow> row \<Rightarrow> row" where
  "row_cols cs r = map (\<lambda>c. (c, cell r c)) cs"

definition getitem_cols :: "frame \<Rightarrow> string list \<Rightarrow> frame" where
  "getitem_cols df cs = \<lparr>columns = cs, rows = map (row_cols cs) (rows df)\<rparr>"

text \<open>
  \<^verbatim>\<open>df.drop_duplicates()\<close>: keeps the first of equal rows (two missing values
  are equal here, as in pandas).
\<close>

fun keep_first :: "'a list \<Rightarrow> 'a list \<Rightarrow> 'a list" where
  "keep_first seen [] = []"
| "keep_first seen (x # xs) =
     (if x \<in> set seen then keep_first seen xs else x # keep_first (x # seen) xs)"

definition drop_duplicates :: "frame \<Rightarrow> frame" where
  "drop_duplicates df = \<lparr>columns = columns df, rows = keep_first [] (rows df)\<rparr>"

text \<open>
  One cell of a numeric column against a Python number, as \<^verbatim>\<open>series < th\<close>
  and \<^verbatim>\<open>series <= th\<close> compare them: an \<^verbatim>\<open>int64\<close> cell with an \<^verbatim>\<open>int\<close>
  exactly; in every other pairing both sides as doubles. A missing value
  compares false.
\<close>

fun lt_num :: "val \<Rightarrow> pynum \<Rightarrow> bool" where
  "lt_num (IntV i) (PyInt t) = (i < t)"
| "lt_num (IntV i) (PyFloat t) = (fl (of_int i) < t)"
| "lt_num (Num q) (PyInt t) = (q < fl (of_int t))"
| "lt_num (Num q) (PyFloat t) = (q < t)"
| "lt_num (Str s) t = False"
| "lt_num NaN t = False"

fun le_num :: "val \<Rightarrow> pynum \<Rightarrow> bool" where
  "le_num (IntV i) (PyInt t) = (i \<le> t)"
| "le_num (IntV i) (PyFloat t) = (fl (of_int i) \<le> t)"
| "le_num (Num q) (PyInt t) = (q \<le> fl (of_int t))"
| "le_num (Num q) (PyFloat t) = (q \<le> t)"
| "le_num (Str s) t = False"
| "le_num NaN t = False"

text \<open>
  \<^verbatim>\<open>series < th\<close> for a number \<open>th\<close>: raises \<^verbatim>\<open>TypeError\<close> on a column that
  holds a string.
\<close>

definition lt_scalar :: "val list \<Rightarrow> pynum \<Rightarrow> exn + bool list" where
  "lt_scalar vs th =
     (if \<exists>v \<in> set vs. is_Str v then Inl TypeError
      else Inr (map (\<lambda>v. lt_num v th) vs))"

text \<open>\<^verbatim>\<open>series <= th\<close>, the same way.\<close>

definition le_scalar :: "val list \<Rightarrow> pynum \<Rightarrow> exn + bool list" where
  "le_scalar vs th =
     (if \<exists>v \<in> set vs. is_Str v then Inl TypeError
      else Inr (map (\<lambda>v. le_num v th) vs))"

text \<open>\<^verbatim>\<open>series == s\<close> for a string \<open>s\<close>.\<close>

definition eq_str :: "val list \<Rightarrow> string \<Rightarrow> bool list" where
  "eq_str vs s = map (\<lambda>v. v = Str s) vs"

text \<open>
  \<^verbatim>\<open>format(v, '.nf')\<close> on a cell: \<^verbatim>\<open>ValueError\<close> on a string, \<^verbatim>\<open>nan\<close> on the
  missing value.
\<close>

definition format_cell :: "pyenv \<Rightarrow> nat \<Rightarrow> val \<Rightarrow> exn + string" where
  "format_cell env n v =
     (case v of IntV i \<Rightarrow> Inr (format_f env n (of_int i))
      | Num q \<Rightarrow> Inr (format_f env n q)
      | Str s \<Rightarrow> Inl ValueError
      | NaN \<Rightarrow> Inr ''nan'')"

text \<open>
  Iterating over \<^verbatim>\<open>set(t1.columns) & set(t2.columns)\<close>: the common labels,
  each once, in the order the environment gives this set.
\<close>

definition common_columns :: "pyenv \<Rightarrow> frame \<Rightarrow> frame \<Rightarrow> string list" where
  "common_columns env t1 t2 =
     sort_key (iter_rank env (columns t1) (columns t2))
       (remdups (filter (\<lambda>c. c \<in> set (columns t2)) (columns t1)))"

section \<open>check\_val\_range\<close>

text \<open>
  One turn of a loop body that sits in \<^verbatim>\<open>try: ... except Exception: ... continue\<close>
  is a function from the findings accumulated so far to the findings when the
  turn ends, together with the exception that ended it, if one did. An
  exception leaves \<^verbatim>\<open>self.data_quality_output\<close> as the last assignment before
  it made it.

  The turn of \<^verbatim>\<open>check_val_range\<close>. The assignments to \<open>bad_rows\<close> are made in
  the order of the source, so the value quoted in the warning is read after
  the four columns before it are written. The threshold is always passed
  (the source defaults it to the \<^verbatim>\<open>int\<close> 0).
\<close>

definition val_range_pair ::
  "pyenv \<Rightarrow> string \<Rightarrow> pynum \<Rightarrow> frame \<Rightarrow> string \<times> string \<Rightarrow> frame \<times> exn option" where
  "val_range_pair env dp th out p =
     (case p of (table_name, target_col) \<Rightarrow>
       (case read_csv env (dp @ table_name @ ''.csv'') of
          Inl e \<Rightarrow> (out, Some e)
        | Inr table \<Rightarrow>
            if target_col \<notin> set (columns table) then (out, None)
            else
              (case lt_scalar (column_values table target_col) th of
                 Inl e \<Rightarrow> (out, Some e)
               | Inr msk \<Rightarrow>
                   let bad_rows = getitem_mask table msk in
                   if length (rows bad_rows) > 0 then
                     let bad_rows = assign_col ''INPUT_COLUMN'' (\<lambda>r. Str target_col) bad_rows;
                         bad_rows = assign_col ''INPUT_TABLE'' (\<lambda>r. Str table_name) bad_rows;
                         bad_rows = assign_col ''INPUT_VALUE'' (\<lambda>r. num_val th) bad_rows;
                         bad_rows = assign_col ''WARNING_TYPE'' (\<lambda>r. Str ''val_range'') bad_rows
                     in (case format_cell env 2 (hd (column_values bad_rows target_col)) of
                           Inl e \<Rightarrow> (out, Some e)
                         | Inr shown \<Rightarrow>
                             let bad_rows = assign_col ''WARNING''
                                   (\<lambda>r. Str (''Value '' @ target_col @ ''='' @ shown
                                      @ '' is below threshold '' @ str_num env th
                                      @ '' in '' @ table_name)) bad_rows
                             in (concat_frames out bad_rows, None))
                   else (out, None))))"

text \<open>
  The loop: after a turn, with or without an exception, the next pair is
  processed on the findings the turn left.
\<close>

fun val_range_loop ::
  "pyenv \<Rightarrow> string \<Rightarrow> pynum \<Rightarrow> (string \<times> string) list \<Rightarrow> frame \<Rightarrow> frame" where
  "val_range_loop env dp th [] out = out"
| "val_range_loop env dp th (p # ps) out =
     val_range_loop env dp th ps (fst (val_range_pair env dp th out p))"

text \<open>
  The method: it stores the findings in \<open>self\<close> and returns them. A method is
  a function from \<open>self\<close> to the returned value and the new \<open>self\<close>.
\<close>

definition check_val_range ::
  "pyenv \<Rightarrow> (string \<times> string) list \<Rightarrow> pynum \<Rightarrow> DQ \<Rightarrow> frame \<times> DQ" where
  "check_val_range env tables th self =
     (let self' = self\<lparr>data_quality_output :=
                    val_range_loop env (data_path self) th tables (data_quality_output self)\<rparr>
      in (data_quality_output self', self'))"

section \<open>check\_cross\_consistency\<close>

text \<open>
  \<^verbatim>\<open>itertools.permutations(tables, 2)\<close>: every element paired with every
  element at another position, in the order of the list.
\<close>

fun permutations2_from :: "'a list \<Rightarrow> 'a list \<Rightarrow> ('a \<times> 'a) list" where
  "permutations2_from pre [] = []"
| "permutations2_from pre (x # post) =
     map (Pair x) (pre @ post) @ permutations2_from (pre @ [x]) post"

definition permutations2 :: "'a list \<Rightarrow> ('a \<times> 'a) list" where
  "permutations2 xs = permutations2_from [] xs"

text \<open>
  \<^verbatim>\<open>left.merge(right, on=on, how='left', indicator=True)\<close> for two frames
  that carry exactly the columns \<open>on\<close>, as both callers pass them.

  pandas raises \<^verbatim>\<open>ValueError\<close> when \<open>on\<close> names a label twice (the label is
  then not unique in the frames), and, unless one of the two frames has no
  rows, when it is to merge a numeric key column with a column of strings (a
  column that holds strings and no integer).

  The keys are compared column by column. Where the two columns are numeric
  with different dtypes (\<^verbatim>\<open>int64\<close> against \<^verbatim>\<open>float64\<close>) both are cast to
  \<^verbatim>\<open>float64\<close> first; anywhere else numbers are compared by value and strings
  by their characters. Two missing values match.

  The result has every row of \<open>left\<close>, in order and with the cells \<open>left\<close>
  has, once per row of \<open>right\<close> with a matching key and marked \<^verbatim>\<open>both\<close>,
  or once and marked \<^verbatim>\<open>left_only\<close> when no row of \<open>right\<close> matches.
\<close>

definition string_like :: "val list \<Rightarrow> bool" where
  "string_like vs = ((\<exists>v \<in> set vs. is_Str v) \<and> (\<forall>v \<in> set vs. \<not> is_IntV v))"

definition merge_dtype_clash :: "frame \<Rightarrow> frame \<Rightarrow> string list \<Rightarrow> bool" where
  "merge_dtype_clash left right on =
     (rows left \<noteq> [] \<and> rows right \<noteq> [] \<and>
      (\<exists>c \<in> set on.
         (dtype_of (column_values left c) \<noteq> Object \<and> string_like (column_values right c)) \<or>
         (string_like (column_values left c) \<and> dtype_of (column_values right c) \<noteq> Object)))"

definition canon :: "val \<Rightarrow> val" where
  "canon v = (case v of IntV i \<Rightarrow> Num (of_int i) | _ \<Rightarrow> v)"

definition as_doubles :: "frame \<Rightarrow> frame \<Rightarrow> string \<Rightarrow> bool" where
  "as_doubles left right c =
     (let dl = dtype_of (column_values left c); dr = dtype_of (column_values right c)
      in dl \<noteq> Object \<and> dr \<noteq> Object \<and> dl \<noteq> dr)"

definition merge_key :: "frame \<Rightarrow> frame \<Rightarrow> string list \<Rightarrow> row \<Rightarrow> val list" where
  "merge_key left right on r =
     map (\<lambda>c. if as_doubles left right c then to_float (cell r c) else canon (cell r c)) on"

definition merge_left_indicator :: "frame \<Rightarrow> frame \<Rightarrow> string list \<Rightarrow> exn + frame" where
  "merge_left_indicator left right on =
     (if \<not> distinct on then Inl ValueError
      else if merge_dtype_clash left right on then Inl ValueError
      else Inr \<lparr>columns = columns left @ [''_merge''],
                rows = concat (map (\<lambda>l.
                  let matches = filter (\<lambda>r. merge_key left right on r = merge_key left right on l)
                                  (rows right)
                  in if matches = [] then [l @ [(''_merge'', Str ''left_only'')]]
                     else map (\<lambda>r. l @ [(''_merge'', Str ''both'')]) matches) (rows left))\<rparr>)"

text \<open>The common columns whose upper-cased name contains \<^verbatim>\<open>ID\<close>.\<close>

definition common_id_cols :: "pyenv \<Rightarrow> frame \<Rightarrow> frame \<Rightarrow> string list" where
  "common_id_cols env table1 table2 =
     filter (\<lambda>col. str_in ''ID'' (upper env col)) (common_columns env table1 table2)"

text \<open>\<^verbatim>\<open>table[cols].drop_duplicates()\<close>.\<close>

definition unique_ids :: "frame \<Rightarrow> string list \<Rightarrow> frame" where
  "unique_ids table cols = drop_duplicates (getitem_cols table cols)"

text \<open>The turn of \<^verbatim>\<open>check_cross_consistency\<close> for one ordered pair of tables.\<close>

definition cross_pair ::
  "pyenv \<Rightarrow> string \<Rightarrow> frame \<Rightarrow> string \<times> string \<Rightarrow> frame \<times> exn option" where
  "cross_pair env dp out p =
     (case p of (table1_name, table2_name) \<Rightarrow>
       (case read_csv env (dp @ table1_name @ ''.csv'') of
          Inl e \<Rightarrow> (out, Some e)
        | Inr table1 \<Rightarrow>
       (case read_csv env (dp @ table2_name @ ''.csv'') of
          Inl e \<Rightarrow> (out, Some e)
        | Inr table2 \<Rightarrow>
            let cols = common_id_cols env table1 table2 in
            if cols = [] then (out, None)
            else
              let unique_ids_table1 = unique_ids table1 cols;
                  unique_ids_table2 = unique_ids table2 cols
              in (case merge_left_indicator unique_ids_table1 unique_ids_table2 cols of
                    Inl e \<Rightarrow> (out, Some e)
                  | Inr merged \<Rightarrow>
                      let orphaned = getitem_mask merged
                                       (eq_str (column_values merged ''_merge'') ''left_only'')
                      in if length (rows orphaned) > 0 then
                           let orphaned = drop_col ''_merge'' orphaned;
                               orphaned = assign_col ''INPUT_TABLE''
                                 (\<lambda>r. Str (table1_name @ '' && '' @ table2_name)) orphaned;
                               orphaned = assign_col ''WARNING_TYPE''
                                 (\<lambda>r. Str ''cross_consistency'') orphaned;
                               orphaned = assign_col ''WARNING''
                                 (\<lambda>r. Str (''IDs from '' @ table1_name @ '' not found in ''
                                    @ table2_name)) orphaned
                           in (concat_frames out orphaned, None)
                         else (out, None)))))"

fun cross_loop :: "pyenv \<Rightarrow> string \<Rightarrow> (string \<times> string) list \<Rightarrow> frame \<Rightarrow> frame" where
  "cross_loop env dp [] out = out"
| "cross_loop env dp (p # ps) out = cross_loop env dp ps (fst (cross_pair env dp out p))"

definition check_cross_consistency :: "pyenv \<Rightarrow> string list \<Rightarrow> DQ \<Rightarrow> frame \<times> DQ" where
  "check_cross_consistency env tables self =
     (let table_pairs = permutations2 tables;
          self' = self\<lparr>data_quality_output :=
                    cross_loop env (data_path self) table_pairs (data_quality_output self)\<rparr>
      in (data_quality_output self', self'))"

section \<open>check\_time\_cross\_consistency\<close>

text \<open>
  \<^verbatim>\<open>df.groupby(by_cols)[col].nunique()\<close>: a Series with one entry per key
  over the columns \<open>by_cols\<close>, the keys in ascending order, holding the number
  of distinct values of \<open>col\<close> among the rows of that key. Rows with a
  missing value in the key are left out, and missing values of \<open>col\<close> are not
  counted. Within a column numbers sort by value and strings by their
  characters. \<^verbatim>\<open>.reset_index()\<close> makes the Series a frame: the key columns,
  then the counts, an \<^verbatim>\<open>int64\<close> column, under the label \<open>col\<close>.
\<close>

fun str_le :: "string \<Rightarrow> string \<Rightarrow> bool" where
  "str_le [] t = True"
| "str_le (c # cs) [] = False"
| "str_le (c # cs) (d # ds) =
     ((of_char c :: nat) < of_char d \<or> (c = d \<and> str_le cs ds))"

definition number_of :: "val \<Rightarrow> rat option" where
  "number_of v = (case v of IntV i \<Rightarrow> Some (of_int i) | Num q \<Rightarrow> Some q | _ \<Rightarrow> None)"

definition val_le :: "val \<Rightarrow> val \<Rightarrow> bool" where
  "val_le v w =
     (case (number_of v, number_of w) of
        (Some a, Some b) \<Rightarrow> a \<le> b
      | (Some a, None) \<Rightarrow> True
      | (None, Some b) \<Rightarrow> False
      | (None, None) \<Rightarrow>
          (case (v, w) of
             (Str s, Str t) \<Rightarrow> str_le s t
           | (NaN, _) \<Rightarrow> w = NaN
           | _ \<Rightarrow> True))"

fun key_le :: "val list \<Rightarrow> val list \<Rightarrow> bool" where
  "key_le [] ys = True"
| "key_le (x # xs) [] = False"
| "key_le (x # xs) (y # ys) = (if x = y then key_le xs ys else val_le x y)"

fun insort_key_le :: "val list \<Rightarrow> val list list \<Rightarrow> val list list" where
  "insort_key_le k [] = [k]"
| "insort_key_le k (x # xs) =
     (if key_le k x then k # x # xs else x # insort_key_le k xs)"

definition sort_keys :: "val list list \<Rightarrow> val list list" where
  "sort_keys ks = foldr insort_key_le ks []"

definition key_of :: "string list \<Rightarrow> row \<Rightarrow> val list" where
  "key_of on r = map (\<lambda>c. cell r c) on"

definition nunique :: "val list \<Rightarrow> nat" where
  "nunique vs = length (keep_first [] (filter (\<lambda>v. v \<noteq> NaN) vs))"

definition groupby_nunique :: "frame \<Rightarrow> string list \<Rightarrow> string \<Rightarrow> (val list \<times> nat) list" where
  "groupby_nunique df by_cols col =
     (let rs = filter (\<lambda>r. NaN \<notin> set (key_of by_cols r)) (rows df);
          keys = sort_keys (keep_first [] (map (key_of by_cols) rs))
      in map (\<lambda>k. (k, nunique (map (\<lambda>r. cell r col)
                                 (filter (\<lambda>r. key_of by_cols r = k) rs)))) keys)"

definition reset_index :: "string list \<Rightarrow> string \<Rightarrow> (val list \<times> nat) list \<Rightarrow> frame" where
  "reset_index by_cols col series =
     \<lparr>columns = by_cols @ [col],
      rows = map (\<lambda>(k, n). zip by_cols k @ [(col, IntV (int n))]) series\<rparr>"

text \<open>\<^verbatim>\<open>df.columns = cs\<close>: relabels the columns by position.\<close>

definition set_columns :: "string list \<Rightarrow> frame \<Rightarrow> frame" where
  "set_columns cs df = \<lparr>columns = cs, rows = map (\<lambda>r. zip cs (map snd r)) (rows df)\<rparr>"

text \<open>
  The identifier columns and the date columns of a pair of tables, both
  comprehensions over the same set \<open>common_columns\<close>.
\<close>

definition id_columns :: "pyenv \<Rightarrow> frame \<Rightarrow> frame \<Rightarrow> string list" where
  "id_columns env table1 table2 =
     filter (\<lambda>col. str_in ''ID'' (upper env col) \<and>
                    (str_in ''PRODUCT'' (upper env col) \<or> str_in ''LOCATION'' (upper env col)))
       (common_columns env table1 table2)"

definition date_columns :: "pyenv \<Rightarrow> frame \<Rightarrow> frame \<Rightarrow> string list" where
  "date_columns env table1 table2 =
     filter (\<lambda>col. endswith col ''_DT'') (common_columns env table1 table2)"

text \<open>
  \<^verbatim>\<open>(missing_count / total_records * 100) if total_records > 0 else 0\<close>: the
  quotient of two \<^verbatim>\<open>int\<close>s is the double nearest to it, and so is the
  product of that double and 100.
\<close>

definition missing_pct :: "nat \<Rightarrow> nat \<Rightarrow> rat" where
  "missing_pct missing_count total_records =
     (if total_records > 0
      then fl (fl (of_nat missing_count / of_nat total_records) * 100)
      else 0)"

text \<open>
  Lines 160 to 179: the combinations of \<open>table1\<close> that \<open>table2\<close> lacks, and the
  findings after them. \<open>merged\<close> is the indicator merge of the two
  reductions. Python compares the float \<open>missing_pct\<close> with the number \<open>th\<close>
  by value.
\<close>

definition missing_step ::
  "pyenv \<Rightarrow> pynum \<Rightarrow> string \<Rightarrow> string \<Rightarrow> frame \<Rightarrow> frame \<Rightarrow> frame \<Rightarrow> frame" where
  "missing_step env th table1_name table2_name unique_keys_table1 merged out =
     (let missing_records = getitem_mask merged
                              (eq_str (column_values merged ''_merge'') ''left_only'')
      in if length (rows missing_records) > 0 then
           let missing_records = drop_col ''_merge'' missing_records;
               total_records = length (rows unique_keys_table1);
               missing_count = length (rows missing_records);
               pct = missing_pct missing_count total_records;
               missing_records = assign_col ''INPUT_TABLE''
                 (\<lambda>r. Str (table1_name @ '' && '' @ table2_name)) missing_records;
               missing_records = assign_col ''INPUT_VALUE'' (\<lambda>r. num_val th) missing_records;
               missing_records = assign_col ''WARNING_TYPE''
                 (\<lambda>r. Str ''time_cross_consistency'') missing_records;
               missing_records = assign_col ''WARNING''
                 (\<lambda>r. Str (str_nat missing_count @ '' records ('' @ format_f env 1 pct
                    @ ''%) from '' @ table1_name @ '' missing in '' @ table2_name))
                 missing_records
           in if pct > num_of th then concat_frames out missing_records else out
         else out)"

text \<open>Lines 181 to 198: the entities seen in few periods, and the findings after them.\<close>

definition infrequent_step ::
  "pyenv \<Rightarrow> pynum \<Rightarrow> string \<Rightarrow> frame \<Rightarrow> string list \<Rightarrow> string list \<Rightarrow> frame
     \<Rightarrow> frame \<times> exn option" where
  "infrequent_step env th table1_name table1 id_cols date_cols out =
     (if length id_cols > 0 then
        let id_date_counts = set_columns (id_cols @ [''period_count''])
                               (reset_index id_cols (hd date_cols)
                                  (groupby_nunique table1 id_cols (hd date_cols)))
        in (case le_scalar (column_values id_date_counts ''period_count'') th of
              Inl e \<Rightarrow> (out, Some e)
            | Inr msk \<Rightarrow>
                let infrequent = getitem_mask id_date_counts msk
                in if length (rows infrequent) > 0 then
                     let infrequent = drop_col ''period_count'' infrequent;
                         infrequent = assign_col ''INPUT_TABLE'' (\<lambda>r. Str table1_name) infrequent;
                         infrequent = assign_col ''INPUT_VALUE'' (\<lambda>r. num_val th) infrequent;
                         infrequent = assign_col ''WARNING_TYPE''
                           (\<lambda>r. Str ''time_cross_consistency'') infrequent;
                         infrequent = assign_col ''WARNING''
                           (\<lambda>r. Str (''ID appears in '' @ str_num env th
                              @ '' or fewer time periods in '' @ table1_name)) infrequent
                     in (concat_frames out infrequent, None)
                   else (out, None))
      else (out, None))"

text \<open>
  The turn of \<^verbatim>\<open>check_time_cross_consistency\<close> for one pair of tables. A
  common column that is both an identifier and a date column is named twice
  in \<open>key_columns\<close>, and the merge raises.
\<close>

definition time_pair ::
  "pyenv \<Rightarrow> string \<Rightarrow> pynum \<Rightarrow> frame \<Rightarrow> string \<times> string \<Rightarrow> frame \<times> exn option" where
  "time_pair env dp th out p =
     (case p of (table1_name, table2_name) \<Rightarrow>
       (case read_csv env (dp @ table1_name @ ''.csv'') of
          Inl e \<Rightarrow> (out, Some e)
        | Inr table1 \<Rightarrow>
       (case read_csv env (dp @ table2_name @ ''.csv'') of
          Inl e \<Rightarrow> (out, Some e)
        | Inr table2 \<Rightarrow>
            let id_cols = id_columns env table1 table2;
                date_cols = date_columns env table1 table2
            in if id_cols = [] \<or> date_cols = [] then (out, None)
               else
                 let key_columns = id_cols @ date_cols;
                     unique_keys_table1 = unique_ids table1 key_columns;
                     unique_keys_table2 = unique_ids table2 key_columns
                 in (case merge_left_indicator unique_keys_table1 unique_keys_table2
                            key_columns of
                       Inl e \<Rightarrow> (out, Some e)
                     | Inr merged \<Rightarrow>
                         infrequent_step env th table1_name table1 id_cols date_cols
                           (missing_step env th table1_name table2_name
                              unique_keys_table1 merged out)))))"

fun time_loop ::
  "pyenv \<Rightarrow> string \<Rightarrow> pynum \<Rightarrow> (string \<times> string) list \<Rightarrow> frame \<Rightarrow> frame" where
  "time_loop env dp th [] out = out"
| "time_loop env dp th (p # ps) out =
     time_loop env dp th ps (fst (time_pair env dp th out p))"

definition check_time_cross_consistency ::
  "pyenv \<Rightarrow> (string \<times> string) list \<Rightarrow> pynum \<Rightarrow> DQ \<Rightarrow> frame \<times> DQ" where
  "check_time_cross_consistency env tables th self =
     (let self' = self\<lparr>data_quality_output :=
                    time_loop env (data_path self) th tables (data_quality_output self)\<rparr>
      in (data_quality_output self', self'))"

section \<open>format\_output\<close>

text \<open>
  \<^verbatim>\<open>series.astype('Int64')\<close>: integers and missing values are kept and a
  float that is a whole number becomes that integer; a string, a float with
  a fractional part or a number outside the range of \<^verbatim>\<open>int64\<close> makes the
  cast raise.
\<close>

definition is_whole :: "rat \<Rightarrow> bool" where
  "is_whole q = (of_int (floor q) = q)"

definition in_int64 :: "int \<Rightarrow> bool" where
  "in_int64 i = (- (2 ^ 63) \<le> i \<and> i < 2 ^ 63)"

definition astype_Int64 :: "val list \<Rightarrow> exn + val list" where
  "astype_Int64 vs =
     (if \<exists>v \<in> set vs. is_Str v then Inl ValueError
      else if \<exists>v \<in> set vs. case v of Num q \<Rightarrow> \<not> is_whole q \<or> \<not> in_int64 \<lfloor>q\<rfloor>
                                | IntV i \<Rightarrow> \<not> in_int64 i | _ \<Rightarrow> False
      then Inl TypeError
      else Inr (map (\<lambda>v. case v of Num q \<Rightarrow> IntV \<lfloor>q\<rfloor> | _ \<Rightarrow> v) vs))"

text \<open>\<^verbatim>\<open>df[c] = series\<close>: the values go to the rows by position.\<close>

definition assign_series :: "string \<Rightarrow> val list \<Rightarrow> frame \<Rightarrow> frame" where
  "assign_series c vs df =
     \<lparr>columns = (if c \<in> set (columns df) then columns df else columns df @ [c]),
      rows = map (\<lambda>(r, v). AList.update c v r) (zip (rows df) vs)\<rparr>"

text \<open>The turn of \<^verbatim>\<open>format_output\<close> for one dimension.\<close>

definition format_dimension ::
  "pyenv \<Rightarrow> string \<Rightarrow> frame \<Rightarrow> string \<times> string \<Rightarrow> frame \<times> exn option" where
  "format_dimension env dp out p =
     (case p of (dimension_name, hierarchy_table_name) \<Rightarrow>
        let id_col_name = dimension_name @ ''_ID'' in
        if id_col_name \<notin> set (columns out) then (out, None)
        else
          (case read_csv env (dp @ hierarchy_table_name @ ''.csv'') of
             Inl e \<Rightarrow> (out, Some e)
           | Inr hierarchy_table \<Rightarrow>
               let level_cols = filter (\<lambda>col. str_in (dimension_name @ ''_LVL_ID'') col)
                                  (columns hierarchy_table);
                   num_levels = length level_cols;
                   target_level = num_levels + 1
               in (case astype_Int64 (column_values out id_col_name) of
                     Inl e \<Rightarrow> (out, Some e)
                   | Inr ids \<Rightarrow>
                       let out = assign_series
                                   (dimension_name @ ''_LVL_ID'' @ str_nat target_level) ids out;
                           out = assign_col (dimension_name @ ''_LVL'')
                                   (\<lambda>r. IntV (int target_level)) out;
                           out = drop_col id_col_name out
                       in (out, None))))"

fun format_loop :: "pyenv \<Rightarrow> string \<Rightarrow> (string \<times> string) list \<Rightarrow> frame \<Rightarrow> frame" where
  "format_loop env dp [] out = out"
| "format_loop env dp (p # ps) out =
     format_loop env dp ps (fst (format_dimension env dp out p))"

text \<open>
  The method returns nothing; \<open>lvl_data\<close> is a dictionary, read in the order of
  its items.
\<close>

definition format_output :: "pyenv \<Rightarrow> (string \<times> string) list \<Rightarrow> DQ \<Rightarrow> DQ" where
  "format_output env lvl_data self =
     (if empty_frame (data_quality_output self) then self
      else self\<lparr>data_quality_output :=
             format_loop env (data_path self) lvl_data (data_quality_output self)\<rparr>)"

section \<open>get\_summary\<close>

text \<open>
  The summary is a dictionary from strings to a count, a string or a
  dictionary of counts.
\<close>

datatype sval = SInt nat | SStr string | SDict "(val \<times> nat) list"

text \<open>
  \<^verbatim>\<open>series.value_counts().to_dict()\<close>: each value other than the missing one
  with the number of times it occurs, the most frequent first.
\<close>

definition value_counts :: "val list \<Rightarrow> (val \<times> nat) list" where
  "value_counts vs =
     sort_key (\<lambda>p. - int (snd p))
       (map (\<lambda>v. (v, count_list vs v)) (keep_first [] (filter (\<lambda>v. v \<noteq> NaN) vs)))"

text \<open>
  The message of the empty summary has an en dash, three bytes in UTF-8.
\<close>

definition no_issues_message :: string where
  "no_issues_message =
     ''No data quality issues found '' @ [char_of (226::nat), char_of (128::nat), char_of (147::nat)]
       @ '' pobeda!''"

definition get_summary :: "DQ \<Rightarrow> (string \<times> sval) list \<times> DQ" where
  "get_summary self =
     (let df = data_quality_output self in
      if empty_frame df then
        ([(''total_issues'', SInt 0), (''by_type'', SDict []), (''by_table'', SDict []),
          (''message'', SStr no_issues_message)], self)
      else
        let summary = [(''total_issues'', SInt (length (rows df))), (''by_type'', SDict []),
                       (''by_table'', SDict []), (''severity'', SStr ''LOW'')];
            summary = (if ''WARNING_TYPE'' \<in> set (columns df)
                       then AList.update ''by_type''
                              (SDict (value_counts (column_values df ''WARNING_TYPE''))) summary
                       else summary);
            summary = (if ''INPUT_TABLE'' \<in> set (columns df)
                       then AList.update ''by_table''
                              (SDict (value_counts (column_values df ''INPUT_TABLE''))) summary
                       else summary);
            total = length (rows df);
            summary = (if total > 1000 then AList.update ''severity'' (SStr ''CRITICAL'') summary
                       else if total > 100 then AList.update ''severity'' (SStr ''HIGH'') summary
                       else if total > 10 then AList.update ''severity'' (SStr ''MEDIUM'') summary
                       else AList.update ''severity'' (SStr ''LOW'') summary)
        in (summary, self))"

section \<open>Notions used to state the properties\<close>

text \<open>The \<^verbatim>\<open>severity\<close> entry of the summary, if it has one.\<close>

definition severity_of :: "DQ \<Rightarrow> sval option" where
  "severity_of self = map_of (fst (get_summary self)) ''severity''"

text \<open>The four severities in ascending order.\<close>

definition severity_rank :: "sval option \<Rightarrow> nat" where
  "severity_rank s =
     (if s = Some (SStr ''LOW'') then 0
      else if s = Some (SStr ''MEDIUM'') then 1
      else if s = Some (SStr ''HIGH'') then 2
      else if s = Some (SStr ''CRITICAL'') then 3
      else 4)"

text \<open>
  A row after later concatenations: the same labels, and each cell as it was
  or, an integer whose column became \<^verbatim>\<open>float64\<close>, cast to a double.
\<close>

definition recast :: "row \<Rightarrow> row \<Rightarrow> bool" where
  "recast r r' =
     list_all2 (\<lambda>x y. fst y = fst x \<and> (snd y = snd x \<or> snd y = to_float (snd x))) r r'"

text \<open>
  A findings table after some appends: the old rows first, each recast at
  most, and the same table when no row came.
\<close>

definition extends :: "frame \<Rightarrow> frame \<Rightarrow> bool" where
  "extends out out' \<longleftrightarrow>
     length (rows out) \<le> length (rows out') \<and>
     list_all2 recast (rows out) (take (length (rows out)) (rows out')) \<and>
     (length (rows out') = length (rows out) \<longrightarrow> out' = out)"

text \<open>
  What the checkers do with a batch of findings: nothing when it has no row,
  \<^verbatim>\<open>pd.concat\<close> otherwise.
\<close>

definition append_findings :: "frame \<Rightarrow> frame \<Rightarrow> frame" where
  "append_findings out batch = (if rows batch = [] then out else concat_frames out batch)"

text \<open>The column index after a label is assigned.\<close>

definition add_label :: "string list \<Rightarrow> string \<Rightarrow> string list" where
  "add_label cs c = (if c \<in> set cs then cs else cs @ [c])"

text \<open>
  A row of a table as \<^verbatim>\<open>check_val_range\<close> reports it, and the batch of a
  table: one finding per row whose value in the column is below \<open>th\<close>, in
  the order of the table.
\<close>

definition val_range_finding :: "string \<Rightarrow> string \<Rightarrow> pynum \<Rightarrow> string \<Rightarrow> row \<Rightarrow> row" where
  "val_range_finding table_name target_col th warning r =
     AList.update ''WARNING'' (Str warning)
       (AList.update ''WARNING_TYPE'' (Str ''val_range'')
         (AList.update ''INPUT_VALUE'' (num_val th)
           (AList.update ''INPUT_TABLE'' (Str table_name)
             (AList.update ''INPUT_COLUMN'' (Str target_col) r))))"

definition val_range_findings ::
  "string \<Rightarrow> string \<Rightarrow> pynum \<Rightarrow> string \<Rightarrow> frame \<Rightarrow> frame" where
  "val_range_findings table_name target_col th warning table =
     \<lparr>columns = foldl add_label (columns table)
                  [''INPUT_COLUMN'', ''INPUT_TABLE'', ''INPUT_VALUE'', ''WARNING_TYPE'', ''WARNING''],
      rows = map (val_range_finding table_name target_col th warning)
               (filter (\<lambda>r. lt_num (cell r target_col) th) (rows table))\<rparr>"

text \<open>
  The left anti-join of the two reductions as pandas matches keys: the key
  tuples of \<open>t1\<close> over the columns \<open>cols\<close>, each once, that match no key
  tuple of \<open>t2\<close>.
\<close>

definition orphans :: "frame \<Rightarrow> frame \<Rightarrow> string list \<Rightarrow> row list" where
  "orphans t1 t2 cols =
     (let u1 = unique_ids t1 cols; u2 = unique_ids t2 cols
      in filter (\<lambda>k. merge_key u1 u2 cols k \<notin> set (map (merge_key u1 u2 cols) (rows u2)))
           (rows u1))"

text \<open>
  The same by value alone: the key tuples of \<open>t1\<close>, each once, whose values
  are the values of no key tuple of \<open>t2\<close>.
\<close>

definition value_key :: "string list \<Rightarrow> row \<Rightarrow> val list" where
  "value_key cols r = map (\<lambda>c. canon (cell r c)) cols"

definition absent_keys :: "frame \<Rightarrow> frame \<Rightarrow> string list \<Rightarrow> row list" where
  "absent_keys t1 t2 cols =
     filter (\<lambda>k. value_key cols k \<notin> set (map (value_key cols) (rows t2)))
       (rows (unique_ids t1 cols))"

text \<open>A key tuple as \<^verbatim>\<open>check_cross_consistency\<close> reports it, and the batch of a pair.\<close>

definition cross_finding :: "string \<Rightarrow> string \<Rightarrow> row \<Rightarrow> row" where
  "cross_finding table1_name table2_name k =
     AList.update ''WARNING''
         (Str (''IDs from '' @ table1_name @ '' not found in '' @ table2_name))
       (AList.update ''WARNING_TYPE'' (Str ''cross_consistency'')
         (AList.update ''INPUT_TABLE'' (Str (table1_name @ '' && '' @ table2_name)) k))"

definition cross_findings :: "string \<Rightarrow> string \<Rightarrow> string list \<Rightarrow> frame \<Rightarrow> frame \<Rightarrow> frame" where
  "cross_findings table1_name table2_name cols t1 t2 =
     \<lparr>columns = foldl add_label cols [''INPUT_TABLE'', ''WARNING_TYPE'', ''WARNING''],
      rows = map (cross_finding table1_name table2_name) (orphans t1 t2 cols)\<rparr>"

text \<open>
  The turn of \<^verbatim>\<open>check_cross_consistency\<close> said with the anti-join: a pair is
  passed over when a table does not load, when the tables share no
  identifier column, and when pandas refuses the merge; any other pair
  appends its batch.
\<close>

definition cross_turn :: "pyenv \<Rightarrow> string \<Rightarrow> frame \<Rightarrow> string \<times> string \<Rightarrow> frame" where
  "cross_turn env dp out p =
     (case (read_csv env (dp @ fst p @ ''.csv''), read_csv env (dp @ snd p @ ''.csv'')) of
        (Inr t1, Inr t2) \<Rightarrow>
          let cols = common_id_cols env t1 t2
          in if cols = [] \<or> merge_dtype_clash (unique_ids t1 cols) (unique_ids t2 cols) cols
             then out
             else append_findings out (cross_findings (fst p) (snd p) cols t1 t2)
      | _ \<Rightarrow> out)"

text \<open>
  A key tuple as \<^verbatim>\<open>check_time_cross_consistency\<close> reports it: missing from
  the second table, or seen in few periods; and the two batches of a pair.
\<close>

definition time_missing_finding :: "string \<Rightarrow> string \<Rightarrow> pynum \<Rightarrow> string \<Rightarrow> row \<Rightarrow> row" where
  "time_missing_finding table1_name table2_name th warning k =
     AList.update ''WARNING'' (Str warning)
       (AList.update ''WARNING_TYPE'' (Str ''time_cross_consistency'')
         (AList.update ''INPUT_VALUE'' (num_val th)
           (AList.update ''INPUT_TABLE'' (Str (table1_name @ '' && '' @ table2_name)) k)))"

definition time_missing_findings ::
  "string \<Rightarrow> string \<Rightarrow> pynum \<Rightarrow> string \<Rightarrow> string list \<Rightarrow> row list \<Rightarrow> frame" where
  "time_missing_findings table1_name table2_name th warning key missing =
     \<lparr>columns = foldl add_label key
                  [''INPUT_TABLE'', ''INPUT_VALUE'', ''WARNING_TYPE'', ''WARNING''],
      rows = map (time_missing_finding table1_name table2_name th warning) missing\<rparr>"

definition time_infrequent_finding :: "string \<Rightarrow> pynum \<Rightarrow> string \<Rightarrow> row \<Rightarrow> row" where
  "time_infrequent_finding table1_name th warning k =
     AList.update ''WARNING'' (Str warning)
       (AList.update ''WARNING_TYPE'' (Str ''time_cross_consistency'')
         (AList.update ''INPUT_VALUE'' (num_val th)
           (AList.update ''INPUT_TABLE'' (Str table1_name) k)))"

definition time_infrequent_findings ::
  "string \<Rightarrow> pynum \<Rightarrow> string \<Rightarrow> string list \<Rightarrow> (val list \<times> nat) list \<Rightarrow> frame" where
  "time_infrequent_findings table1_name th warning id_cols period_count =
     \<lparr>columns = foldl add_label id_cols
                  [''INPUT_TABLE'', ''INPUT_VALUE'', ''WARNING_TYPE'', ''WARNING''],
      rows = map (\<lambda>(k, n). time_infrequent_finding table1_name th warning (zip id_cols k))
               (filter (\<lambda>(k, n). le_num (IntV (int n)) th) period_count)\<rparr>"

text \<open>
  A dimension that \<^verbatim>\<open>format_output\<close> leaves alone on a findings table: the
  table has no identifier column for it, or its hierarchy table does not
  load, or its identifier column cannot be cast.
\<close>

definition settled :: "pyenv \<Rightarrow> string \<Rightarrow> string \<times> string \<Rightarrow> frame \<Rightarrow> bool" where
  "settled env dp p out \<longleftrightarrow>
     fst p @ ''_ID'' \<notin> set (columns out)
     \<or> (\<exists>e. read_csv env (dp @ snd p @ ''.csv'') = Inl e)
     \<or> (\<exists>e. astype_Int64 (column_values out (fst p @ ''_ID'')) = Inl e)"

section \<open>Example data\<close>

text \<open>
  Example tables: sales by product and day, the product list, prices, stock
  and deliveries by product and day, orders and routes by product and
  location, and the hierarchy of the product dimension.
\<close>

definition sales :: frame where
  "sales = \<lparr>columns = [''PRODUCT_ID'', ''SALE_DT'', ''QTY''],
     rows = [[(''PRODUCT_ID'', IntV 1), (''SALE_DT'', Str ''2024-01-01''), (''QTY'', IntV 5)],
             [(''PRODUCT_ID'', IntV 2), (''SALE_DT'', Str ''2024-01-01''), (''QTY'', IntV 3)],
             [(''PRODUCT_ID'', IntV 1), (''SALE_DT'', Str ''2024-01-02''), (''QTY'', IntV 4)],
             [(''PRODUCT_ID'', IntV 1), (''SALE_DT'', Str ''2024-01-03''), (''QTY'', IntV 6)]]\<rparr>"

definition products :: frame where
  "products = \<lparr>columns = [''PRODUCT_ID'', ''NAME''],
     rows = [[(''PRODUCT_ID'', IntV 1), (''NAME'', Str ''x'')]]\<rparr>"

definition prices :: frame where
  "prices = \<lparr>columns = [''PRODUCT_ID'', ''PRICE''],
     rows = [[(''PRODUCT_ID'', IntV 1), (''PRICE'', Num (- 5))],
             [(''PRODUCT_ID'', IntV 2), (''PRICE'', Num 10)]]\<rparr>"

definition stock :: frame where
  "stock = \<lparr>columns = [''PRODUCT_ID'', ''SALE_DT''],
     rows = [[(''PRODUCT_ID'', IntV 1), (''SALE_DT'', Str ''2024-01-01'')],
             [(''PRODUCT_ID'', IntV 2), (''SALE_DT'', Str ''2024-01-01'')],
             [(''PRODUCT_ID'', IntV 1), (''SALE_DT'', Str ''2024-01-02'')],
             [(''PRODUCT_ID'', IntV 1), (''SALE_DT'', Str ''2024-01-03'')]]\<rparr>"

definition deliveries :: frame where
  "deliveries = \<lparr>columns = [''PRODUCT_ID'', ''SALE_DT''],
     rows = [[(''PRODUCT_ID'', IntV 1), (''SALE_DT'', Str ''2024-01-01'')],
             [(''PRODUCT_ID'', IntV 2), (''SALE_DT'', Str ''2024-01-01'')]]\<rparr>"

definition orders :: frame where
  "orders = \<lparr>columns = [''PRODUCT_ID'', ''LOCATION_ID''],
     rows = [[(''PRODUCT_ID'', IntV 1), (''LOCATION_ID'', Str ''x'')]]\<rparr>"

definition routes :: frame where
  "routes = \<lparr>columns = [''PRODUCT_ID'', ''LOCATION_ID''],
     rows = [[(''PRODUCT_ID'', IntV 1), (''LOCATION_ID'', Str ''y'')],
             [(''PRODUCT_ID'', IntV 2), (''LOCATION_ID'', Str ''x'')]]\<rparr>"

definition product_hier :: frame where
  "product_hier = \<lparr>columns = [''PRODUCT_LVL_ID1'', ''PRODUCT_LVL_ID2'', ''PRODUCT_NAME''],
     rows = [[(''PRODUCT_LVL_ID1'', IntV 10), (''PRODUCT_LVL_ID2'', IntV 100),
              (''PRODUCT_NAME'', Str ''x'')]]\<rparr>"

text \<open>
  Tables with identifiers above \<open>2 ^ 53\<close>, as integers and as floats, a
  table whose product identifiers are text, one whose days are numbers, a
  ledger of large amounts, a table of rates without identifiers, and two
  tables that share a validity date.
\<close>

definition big_ids :: frame where
  "big_ids = \<lparr>columns = [''PRODUCT_ID''],
     rows = [[(''PRODUCT_ID'', IntV 1)], [(''PRODUCT_ID'', IntV 9007199254740993)]]\<rparr>"

definition float_ids :: frame where
  "float_ids = \<lparr>columns = [''PRODUCT_ID''],
     rows = [[(''PRODUCT_ID'', Num 1)], [(''PRODUCT_ID'', Num 9007199254740992)]]\<rparr>"

definition codes :: frame where
  "codes = \<lparr>columns = [''PRODUCT_ID''], rows = [[(''PRODUCT_ID'', Str ''A1'')]]\<rparr>"

definition big_orders :: frame where
  "big_orders = \<lparr>columns = [''PRODUCT_ID'', ''LOCATION_ID''],
     rows = [[(''PRODUCT_ID'', IntV 9007199254740993), (''LOCATION_ID'', Str ''x'')]]\<rparr>"

definition float_routes :: frame where
  "float_routes = \<lparr>columns = [''PRODUCT_ID'', ''LOCATION_ID''],
     rows = [[(''PRODUCT_ID'', Num 9007199254740992), (''LOCATION_ID'', Str ''x'')],
             [(''PRODUCT_ID'', Num 7), (''LOCATION_ID'', Str ''y'')]]\<rparr>"

definition returns :: frame where
  "returns = \<lparr>columns = [''PRODUCT_ID'', ''SALE_DT''],
     rows = [[(''PRODUCT_ID'', Str ''P1''), (''SALE_DT'', Str ''2024-01-01'')]]\<rparr>"

definition audit :: frame where
  "audit = \<lparr>columns = [''PRODUCT_ID'', ''SALE_DT''],
     rows = [[(''PRODUCT_ID'', IntV 1), (''SALE_DT'', IntV 20240101)]]\<rparr>"

definition ledger :: frame where
  "ledger = \<lparr>columns = [''AMOUNT''],
     rows = [[(''AMOUNT'', IntV 9007199254740995)], [(''AMOUNT'', IntV 3)]]\<rparr>"

definition rates :: frame where
  "rates = \<lparr>columns = [''RATE''], rows = [[(''RATE'', Num (- 1))]]\<rparr>"

definition catalog :: frame where
  "catalog = \<lparr>columns = [''PRODUCT_ID'', ''PRODUCT_VALID_DT''],
     rows = [[(''PRODUCT_ID'', IntV 1), (''PRODUCT_VALID_DT'', Str ''2024-01-01'')],
             [(''PRODUCT_ID'', IntV 2), (''PRODUCT_VALID_DT'', Str ''2024-02-01'')]]\<rparr>"

definition offers :: frame where
  "offers = \<lparr>columns = [''PRODUCT_ID'', ''PRODUCT_VALID_DT''],
     rows = [[(''PRODUCT_ID'', IntV 1), (''PRODUCT_VALID_DT'', Str ''2024-01-01'')]]\<rparr>"

text \<open>
  An environment with these files under \<^verbatim>\<open>data/\<close> and no other, sets
  iterated in the order of their first list, and numbers printed as a fixed
  text.
\<close>

definition files :: "string \<Rightarrow> exn + frame" where
  "files path =
     (if path = ''data/SALES.csv'' then Inr sales
      else if path = ''data/PRODUCTS.csv'' then Inr products
      else if path = ''data/PRICES.csv'' then Inr prices
      else if path = ''data/STOCK.csv'' then Inr stock
      else if path = ''data/DELIVERIES.csv'' then Inr deliveries
      else if path = ''data/ORDERS.csv'' then Inr orders
      else if path = ''data/ROUTES.csv'' then Inr routes
      else if path = ''data/PRODUCT_HIER.csv'' then Inr product_hier
      else if path = ''data/BIG_IDS.csv'' then Inr big_ids
      else if path = ''data/FLOAT_IDS.csv'' then Inr float_ids
      else if path = ''data/CODES.csv'' then Inr codes
      else if path = ''data/BIG_ORDERS.csv'' then Inr big_orders
      else if path = ''data/FLOAT_ROUTES.csv'' then Inr float_routes
      else if path = ''data/RETURNS.csv'' then Inr returns
      else if path = ''data/AUDIT.csv'' then Inr audit
      else if path = ''data/LEDGER.csv'' then Inr ledger
      else if path = ''data/RATES.csv'' then Inr rates
      else if path = ''data/CATALOG.csv'' then Inr catalog
      else if path = ''data/OFFERS.csv'' then Inr offers
      else Inl FileNotFoundError)"

definition demo_env :: pyenv where
  "demo_env = \<lparr>read_csv = files, iter_rank = (\<lambda>a b c. 0), unicode_upper = (\<lambda>s. s),
                format_f = (\<lambda>n q. ''#''), str_num = (\<lambda>t. ''#'')\<rparr>"

text \<open>An instance whose findings table has \<open>n\<close> rows.\<close>

definition findings_of_size :: "nat \<Rightarrow> DQ" where
  "findings_of_size n =
     \<lparr>data_path = ''data/'',
      data_quality_output =
        \<lparr>columns = [''PRODUCT_ID'', ''WARNING_TYPE''],
         rows = replicate n [(''PRODUCT_ID'', Num 1), (''WARNING_TYPE'', Str ''val_range'')]\<rparr>\<rparr>"

text \<open>An instance at the start of a run: no findings yet.\<close>

definition fresh :: DQ where
  "fresh = \<lparr>data_path = ''data/'', data_quality_output = DataFrame\<rparr>"

text \<open>An instance with one earlier finding about a large integer identifier.\<close>

definition big_findings :: DQ where
  "big_findings =
     \<lparr>data_path = ''data/'',
      data_quality_output =
        \<lparr>columns = [''PRODUCT_ID'', ''WARNING_TYPE''],
         rows = [[(''PRODUCT_ID'', IntV 9007199254740993),
                  (''WARNING_TYPE'', Str ''cross_consistency'')]]\<rparr>\<rparr>"

section \<open>Properties\<close>

subsection \<open>The summary\<close>

lemma severity_of_nonempty:
  "\<not> empty_frame (data_quality_output self) \<Longrightarrow>
   severity_of self =
     Some (SStr (let total = length (rows (data_quality_output self)) in
                 if total > 1000 then ''CRITICAL'' else if total > 100 then ''HIGH''
                 else if total > 10 then ''MEDIUM'' else ''LOW''))"
  by (simp add: severity_of_def get_summary_def Let_def AList.update_conv')

lemma total_issues_nonempty:
  "\<not> empty_frame (data_quality_output self) \<Longrightarrow>
   map_of (fst (get_summary self)) ''total_issues'' = Some (SInt (length (rows (data_quality_output self))))"
  by (simp add: get_summary_def Let_def AList.update_conv')

text \<open>
  C7. For a findings table that is not empty, \<^verbatim>\<open>get_summary\<close> reports the
  number of rows as \<open>total_issues\<close>, and the severity is CRITICAL exactly when
  the total is above 1000, HIGH exactly when it is above 100 and at most 1000,
  MEDIUM exactly when it is above 10 and at most 100, and LOW exactly when it
  is at most 10. A table with at least as many findings never has a lower
  severity.
\<close>

theorem get_summary_severity:
  assumes "\<not> empty_frame (data_quality_output self)"
    and "n = length (rows (data_quality_output self))"
  shows "map_of (fst (get_summary self)) ''total_issues'' = Some (SInt n)
    \<and> (severity_of self = Some (SStr ''CRITICAL'') \<longleftrightarrow> n > 1000)
    \<and> (severity_of self = Some (SStr ''HIGH'') \<longleftrightarrow> 100 < n \<and> n \<le> 1000)
    \<and> (severity_of self = Some (SStr ''MEDIUM'') \<longleftrightarrow> 10 < n \<and> n \<le> 100)
    \<and> (severity_of self = Some (SStr ''LOW'') \<longleftrightarrow> n \<le> 10)
    \<and> (\<forall>other. \<not> empty_frame (data_quality_output other)
           \<and> n \<le> length (rows (data_quality_output other))
         \<longrightarrow> severity_rank (severity_of self) \<le> severity_rank (severity_of other))"
proof -
  have sev: "severity_of self =
     Some (SStr (if n > 1000 then ''CRITICAL'' else if n > 100 then ''HIGH''
                 else if n > 10 then ''MEDIUM'' else ''LOW''))"
    using assms by (simp add: severity_of_nonempty Let_def)
  have mono: "severity_rank (severity_of self) \<le> severity_rank (severity_of other)"
    if "\<not> empty_frame (data_quality_output other)"
      and "n \<le> length (rows (data_quality_output other))" for other
    using that sev by (simp add: severity_of_nonempty[OF that(1)] Let_def severity_rank_def)
  show ?thesis
    using assms(1) assms(2) sev mono by (simp add: total_issues_nonempty)
qed

theorem get_summary_severity_witness:
  "\<not> empty_frame (data_quality_output (findings_of_size 11))
   \<and> severity_of (findings_of_size 10) = Some (SStr ''LOW'')
   \<and> severity_of (findings_of_size 11) = Some (SStr ''MEDIUM'')
   \<and> severity_of (findings_of_size 100) = Some (SStr ''MEDIUM'')
   \<and> severity_of (findings_of_size 101) = Some (SStr ''HIGH'')
   \<and> severity_of (findings_of_size 1000) = Some (SStr ''HIGH'')
   \<and> severity_of (findings_of_size 1001) = Some (SStr ''CRITICAL'')
   \<and> severity_rank (severity_of (findings_of_size 11))
         \<le> severity_rank (severity_of (findings_of_size 1001))"
proof -
  have ne: "\<not> empty_frame (data_quality_output (findings_of_size n))" if "0 < n" for n
    using that by (simp add: findings_of_size_def empty_frame_def)
  have len: "length (rows (data_quality_output (findings_of_size n))) = n" for n
    by (simp add: findings_of_size_def)
  note th = get_summary_severity[OF ne len[symmetric]]
  have "severity_of (findings_of_size 10) = Some (SStr ''LOW'')" using th[of 10] by simp
  moreover have "severity_of (findings_of_size 11) = Some (SStr ''MEDIUM'')" using th[of 11] by simp
  moreover have "severity_of (findings_of_size 100) = Some (SStr ''MEDIUM'')" using th[of 100] by simp
  moreover have "severity_of (findings_of_size 101) = Some (SStr ''HIGH'')" using th[of 101] by simp
  moreover have "severity_of (findings_of_size 1000) = Some (SStr ''HIGH'')" using th[of 1000] by simp
  moreover have "severity_of (findings_of_size 1001) = Some (SStr ''CRITICAL'')" using th[of 1001] by simp
  moreover have "severity_rank (severity_of (findings_of_size 11))
         \<le> severity_rank (severity_of (findings_of_size 1001))"
  proof -
    have "\<forall>other. \<not> empty_frame (data_quality_output other)
           \<and> 11 \<le> length (rows (data_quality_output other))
         \<longrightarrow> severity_rank (severity_of (findings_of_size 11)) \<le> severity_rank (severity_of other)"
    proof -
      have "0 < (11::nat)" by simp
      from th[OF this] show ?thesis by blast
    qed
    then show ?thesis using ne[of 1001] len[of 1001] by simp
  qed
  ultimately show ?thesis using ne[of 11] by simp
qed

text \<open>
  C9. \<^verbatim>\<open>get_summary\<close> leaves the instance as it is. On an empty findings
  table it returns the record with \<open>total_issues\<close> 0, two empty groupings and
  the success message, which has no \<open>severity\<close> entry; on a table that is
  not empty the record has a \<open>severity\<close> entry and no message.
\<close>

theorem get_summary_empty:
  "snd (get_summary self) = self
   \<and> (empty_frame (data_quality_output self) \<longrightarrow>
        fst (get_summary self) =
          [(''total_issues'', SInt 0), (''by_type'', SDict []), (''by_table'', SDict []),
           (''message'', SStr no_issues_message)]
        \<and> severity_of self = None)
   \<and> (\<not> empty_frame (data_quality_output self) \<longrightarrow>
        severity_of self \<noteq> None \<and> map_of (fst (get_summary self)) ''message'' = None)"
  by (simp add: get_summary_def severity_of_def Let_def AList.update_conv')

theorem get_summary_empty_witness:
  "empty_frame (data_quality_output fresh)
   \<and> fst (get_summary fresh) =
        [(''total_issues'', SInt 0), (''by_type'', SDict []), (''by_table'', SDict []),
         (''message'', SStr no_issues_message)]
   \<and> severity_of fresh = None
   \<and> snd (get_summary fresh) = fresh
   \<and> \<not> empty_frame (data_quality_output (findings_of_size 3))
   \<and> severity_of (findings_of_size 3) \<noteq> None"
proof -
  have e: "empty_frame (data_quality_output fresh)"
    by (simp add: fresh_def DataFrame_def empty_frame_def)
  have ne: "\<not> empty_frame (data_quality_output (findings_of_size 3))"
    by (simp add: findings_of_size_def empty_frame_def)
  from get_summary_empty[of fresh] get_summary_empty[of "findings_of_size 3"] e ne
  show ?thesis by blast
qed

subsection \<open>Cells, rows and columns\<close>

lemma cell_update: "cell (AList.update k v r) c = (if c = k then v else cell r c)"
  by (simp add: cell_def AList.update_conv')

lemma cell_delete: "cell (AList.delete k r) c = (if c = k then NaN else cell r c)"
  by (simp add: cell_def AList.delete_conv')

lemma rows_assign_col: "rows (assign_col c f df) = map (\<lambda>r. AList.update c (f r) r) (rows df)"
  by (simp add: assign_col_def)

lemma columns_assign_col: "columns (assign_col c f df) = add_label (columns df) c"
  by (simp add: assign_col_def add_label_def)

lemma rows_drop_col: "rows (drop_col c df) = map (AList.delete c) (rows df)"
  by (simp add: drop_col_def)

lemma columns_drop_col: "columns (drop_col c df) = removeAll c (columns df)"
  by (simp add: drop_col_def)

lemma columns_getitem_mask: "columns (getitem_mask df msk) = columns df"
  by (simp add: getitem_mask_def)

lemma mask_rows: "map fst (filter snd (zip xs (map f xs))) = filter f xs"
  by (induction xs) simp_all

lemma getitem_mask_map:
  "rows (getitem_mask df (map f (column_values df c))) = filter (\<lambda>r. f (cell r c)) (rows df)"
proof -
  have "map f (column_values df c) = map (\<lambda>r. f (cell r c)) (rows df)"
    by (simp add: column_values_def)
  then show ?thesis
    by (simp add: getitem_mask_def mask_rows)
qed

subsection \<open>Appending to the findings\<close>

lemma to_float_idem: "to_float (to_float v) = to_float v"
  by (cases v) (simp_all add: to_float_def)

lemma recast_refl: "recast r r"
  by (simp add: recast_def list_all2_same)

lemma recast_trans:
  assumes "recast r s" and "recast s t"
  shows "recast r t"
  using assms unfolding recast_def
  by (rule list_all2_trans[rotated]) (auto simp: to_float_idem)

lemma recast_upcast_row: "recast r (upcast_row floats r)"
  by (auto simp: recast_def upcast_row_def list_all2_map2 list_all2_same)

lemma rows_concat_frames:
  "\<exists>floats. rows (concat_frames a b) = map (upcast_row floats) (rows a @ rows b)"
  by (auto simp: concat_frames_def Let_def)

lemma length_concat_frames:
  "length (rows (concat_frames a b)) = length (rows a) + length (rows b)"
  by (simp add: concat_frames_def Let_def)

lemma recast_concat_frames:
  "list_all2 recast (rows a @ rows b) (rows (concat_frames a b))"
proof -
  obtain floats where "rows (concat_frames a b) = map (upcast_row floats) (rows a @ rows b)"
    using rows_concat_frames by blast
  then show ?thesis
    by (simp only: list_all2_map2) (simp add: list_all2_same recast_upcast_row)
qed

lemma extends_refl: "extends out out"
  by (simp add: extends_def list_all2_same recast_refl)

lemma extends_trans:
  assumes "extends a b" and "extends b c"
  shows "extends a c"
proof -
  from assms have len: "length (rows a) \<le> length (rows b)" "length (rows b) \<le> length (rows c)"
    by (simp_all add: extends_def)
  from assms(2) have "list_all2 recast (take (length (rows a)) (rows b))
      (take (length (rows a)) (take (length (rows b)) (rows c)))"
    unfolding extends_def by (blast intro: list_all2_takeI)
  with len have bc: "list_all2 recast (take (length (rows a)) (rows b)) (take (length (rows a)) (rows c))"
    by (simp add: min_absorb1)
  from assms(1) have ab: "list_all2 recast (rows a) (take (length (rows a)) (rows b))"
    by (simp add: extends_def)
  have "list_all2 recast (rows a) (take (length (rows a)) (rows c))"
    by (rule list_all2_trans[OF recast_trans ab bc])
  moreover have "c = a" if "length (rows c) = length (rows a)"
    using that assms len by (simp add: extends_def)
  ultimately show ?thesis
    using len by (simp add: extends_def)
qed

lemma extends_concat: "rows b \<noteq> [] \<Longrightarrow> extends out (concat_frames out b)"
  by (simp add: extends_def concat_frames_def Let_def list_all2_map2 list_all2_same
      recast_upcast_row)

lemma extends_append_findings: "extends out (append_findings out b)"
  by (simp add: append_findings_def extends_refl extends_concat)

lemma val_range_pair_extends: "extends out (fst (val_range_pair env dp th out p))"
  by (auto simp: val_range_pair_def Let_def extends_refl rows_assign_col
      intro!: extends_concat split: sum.splits prod.splits)



lemma val_range_loop_extends: "extends out (val_range_loop env dp th ps out)"
proof (induction ps arbitrary: out)
  case Nil
  show ?case by (simp add: extends_refl)
next
  case (Cons p ps)
  show ?case
    using extends_trans[OF val_range_pair_extends Cons.IH] by simp
qed

lemma cross_pair_extends: "extends out (fst (cross_pair env dp out p))"
  by (auto simp: cross_pair_def Let_def extends_refl rows_assign_col rows_drop_col
      intro!: extends_concat split: sum.splits prod.splits)



lemma cross_loop_extends: "extends out (cross_loop env dp ps out)"
proof (induction ps arbitrary: out)
  case Nil
  show ?case by (simp add: extends_refl)
next
  case (Cons p ps)
  show ?case
    using extends_trans[OF cross_pair_extends Cons.IH] by simp
qed

subsection \<open>Keys and groups\<close>

lemma set_keep_first: "set (keep_first seen xs) = set xs - set seen"
  by (induction xs arbitrary: seen) auto

lemma distinct_keep_first: "distinct (keep_first seen xs)"
  by (induction xs arbitrary: seen) (auto simp: set_keep_first)









lemma infrequent_step_extends: "extends out (fst (infrequent_step env th n1 t1 cs ds out))"
  by (auto simp: infrequent_step_def Let_def extends_refl rows_assign_col rows_drop_col
      intro!: extends_concat split: sum.splits)

lemma missing_step_extends: "extends out (missing_step env th n1 n2 u1 merged out)"
  by (auto simp: missing_step_def Let_def extends_refl rows_assign_col rows_drop_col
      intro!: extends_concat)


lemma upper_merge: "upper env ''_merge'' = ''_MERGE''"
  by code_simp


lemma time_steps_extend:
  "extends out (fst (infrequent_step env th n1 t1 cs ds (missing_step env th n1 n2 u1 merged out)))"
  by (rule extends_trans[OF missing_step_extends infrequent_step_extends])

lemma time_pair_extends: "extends out (fst (time_pair env dp th out p))"
proof (cases p)
  case (Pair a b)
  show ?thesis
    unfolding Pair time_pair_def
    by (simp add: Let_def extends_refl time_steps_extend split: sum.splits)
qed



lemma time_loop_extends: "extends out (time_loop env dp th ps out)"
proof (induction ps arbitrary: out)
  case Nil
  show ?case by (simp add: extends_refl)
next
  case (Cons p ps)
  show ?case
    using extends_trans[OF time_pair_extends Cons.IH] by simp
qed



subsection \<open>What the checkers return\<close>

lemma check_val_range_fst:
  "fst (check_val_range env tables th self)
     = val_range_loop env (data_path self) th tables (data_quality_output self)"
  by (simp add: check_val_range_def Let_def)

lemma check_cross_consistency_fst:
  "fst (check_cross_consistency env tables self)
     = cross_loop env (data_path self) (permutations2 tables) (data_quality_output self)"
  by (simp add: check_cross_consistency_def Let_def)

lemma check_time_cross_consistency_fst:
  "fst (check_time_cross_consistency env tables th self)
     = time_loop env (data_path self) th tables (data_quality_output self)"
  by (simp add: check_time_cross_consistency_def Let_def)

text \<open>
  C10. Each of the three checkers returns the findings table that it has
  just stored in the instance. That table is at least as long as the table
  the instance held when the call began and starts with the rows of that
  table, each with the same labels and cells, but for an integer whose
  column a later \<^verbatim>\<open>pd.concat\<close> made \<^verbatim>\<open>float64\<close>: it is then the nearest
  double. When the call adds no row the returned table is the table the
  instance held, whatever its size.
\<close>

theorem checkers_return_accumulated:
  "fst (check_val_range env vt th self) = data_quality_output (snd (check_val_range env vt th self))
   \<and> length (rows (data_quality_output self)) \<le> length (rows (fst (check_val_range env vt th self)))
   \<and> list_all2 recast (rows (data_quality_output self))
        (take (length (rows (data_quality_output self))) (rows (fst (check_val_range env vt th self))))
   \<and> (length (rows (fst (check_val_range env vt th self))) = length (rows (data_quality_output self))
        \<longrightarrow> fst (check_val_range env vt th self) = data_quality_output self)
   \<and> fst (check_cross_consistency env ct self)
        = data_quality_output (snd (check_cross_consistency env ct self))
   \<and> length (rows (data_quality_output self))
        \<le> length (rows (fst (check_cross_consistency env ct self)))
   \<and> list_all2 recast (rows (data_quality_output self))
        (take (length (rows (data_quality_output self)))
           (rows (fst (check_cross_consistency env ct self))))
   \<and> (length (rows (fst (check_cross_consistency env ct self))) = length (rows (data_quality_output self))
        \<longrightarrow> fst (check_cross_consistency env ct self) = data_quality_output self)
   \<and> fst (check_time_cross_consistency env tt th' self)
        = data_quality_output (snd (check_time_cross_consistency env tt th' self))
   \<and> length (rows (data_quality_output self))
        \<le> length (rows (fst (check_time_cross_consistency env tt th' self)))
   \<and> list_all2 recast (rows (data_quality_output self))
        (take (length (rows (data_quality_output self)))
           (rows (fst (check_time_cross_consistency env tt th' self))))
   \<and> (length (rows (fst (check_time_cross_consistency env tt th' self)))
          = length (rows (data_quality_output self))
        \<longrightarrow> fst (check_time_cross_consistency env tt th' self) = data_quality_output self)"
proof -
  have v: "extends (data_quality_output self) (fst (check_val_range env vt th self))"
    by (simp add: check_val_range_fst val_range_loop_extends)
  have c: "extends (data_quality_output self) (fst (check_cross_consistency env ct self))"
    by (simp add: check_cross_consistency_fst cross_loop_extends)
  have t: "extends (data_quality_output self) (fst (check_time_cross_consistency env tt th' self))"
    by (simp add: check_time_cross_consistency_fst time_loop_extends)
  have r: "fst (check_val_range env vt th self) = data_quality_output (snd (check_val_range env vt th self))"
    "fst (check_cross_consistency env ct self)
        = data_quality_output (snd (check_cross_consistency env ct self))"
    "fst (check_time_cross_consistency env tt th' self)
        = data_quality_output (snd (check_time_cross_consistency env tt th' self))"
    by (simp_all add: check_val_range_def check_cross_consistency_def
        check_time_cross_consistency_def Let_def)
  from v c t r show ?thesis
    unfolding extends_def by blast
qed

theorem checkers_return_accumulated_witness:
  "length (rows (fst (check_val_range demo_env [(''PRICES'', ''PRICE'')] (PyInt (- 10))
       (findings_of_size 3)))) = length (rows (data_quality_output (findings_of_size 3)))
   \<and> fst (check_val_range demo_env [(''PRICES'', ''PRICE'')] (PyInt (- 10)) (findings_of_size 3))
       = data_quality_output (findings_of_size 3)
   \<and> length (rows (fst (check_cross_consistency demo_env [''SALES'', ''PRICES''] (findings_of_size 3))))
       = length (rows (data_quality_output (findings_of_size 3)))
   \<and> fst (check_cross_consistency demo_env [''SALES'', ''PRICES''] (findings_of_size 3))
       = data_quality_output (findings_of_size 3)
   \<and> length (rows (fst (check_time_cross_consistency demo_env [(''SALES'', ''STOCK'')] (PyInt 0)
        (findings_of_size 3)))) = length (rows (data_quality_output (findings_of_size 3)))
   \<and> fst (check_time_cross_consistency demo_env [(''SALES'', ''STOCK'')] (PyInt 0) (findings_of_size 3))
       = data_quality_output (findings_of_size 3)
   \<and> rows (data_quality_output big_findings)
       = [[(''PRODUCT_ID'', IntV 9007199254740993), (''WARNING_TYPE'', Str ''cross_consistency'')]]
   \<and> take 1 (rows (fst (check_val_range demo_env [(''RATES'', ''RATE'')] (PyInt 0) big_findings)))
       = [[(''PRODUCT_ID'', Num 9007199254740992), (''WARNING_TYPE'', Str ''cross_consistency'')]]
   \<and> length (rows (fst (check_val_range demo_env [(''RATES'', ''RATE'')] (PyInt 0) big_findings))) = 2
   \<and> list_all2 recast (rows (data_quality_output big_findings))
        (take (length (rows (data_quality_output big_findings)))
           (rows (fst (check_val_range demo_env [(''RATES'', ''RATE'')] (PyInt 0) big_findings))))"
proof -
  have l1: "length (rows (fst (check_val_range demo_env [(''PRICES'', ''PRICE'')] (PyInt (- 10))
              (findings_of_size 3)))) = length (rows (data_quality_output (findings_of_size 3)))"
    by code_simp
  have l2: "length (rows (fst (check_cross_consistency demo_env [''SALES'', ''PRICES'']
              (findings_of_size 3)))) = length (rows (data_quality_output (findings_of_size 3)))"
    by code_simp
  have l3: "length (rows (fst (check_time_cross_consistency demo_env [(''SALES'', ''STOCK'')] (PyInt 0)
              (findings_of_size 3)))) = length (rows (data_quality_output (findings_of_size 3)))"
    by code_simp
  have b1: "rows (data_quality_output big_findings)
       = [[(''PRODUCT_ID'', IntV 9007199254740993), (''WARNING_TYPE'', Str ''cross_consistency'')]]"
    by code_simp
  have b2: "take 1 (rows (fst (check_val_range demo_env [(''RATES'', ''RATE'')] (PyInt 0) big_findings)))
       = [[(''PRODUCT_ID'', Num 9007199254740992), (''WARNING_TYPE'', Str ''cross_consistency'')]]"
    by code_simp
  have b3: "length (rows (fst (check_val_range demo_env [(''RATES'', ''RATE'')] (PyInt 0) big_findings))) = 2"
    by code_simp
  from checkers_return_accumulated[of demo_env "[(''PRICES'', ''PRICE'')]" "PyInt (- 10)"
      "findings_of_size 3" "[''SALES'', ''PRICES'']" "[(''SALES'', ''STOCK'')]" "PyInt 0"]
    l1 l2 l3
  have g: "fst (check_val_range demo_env [(''PRICES'', ''PRICE'')] (PyInt (- 10)) (findings_of_size 3))
       = data_quality_output (findings_of_size 3)
   \<and> fst (check_cross_consistency demo_env [''SALES'', ''PRICES''] (findings_of_size 3))
       = data_quality_output (findings_of_size 3)
   \<and> fst (check_time_cross_consistency demo_env [(''SALES'', ''STOCK'')] (PyInt 0) (findings_of_size 3))
       = data_quality_output (findings_of_size 3)"
    by blast
  from checkers_return_accumulated[of demo_env "[(''RATES'', ''RATE'')]" "PyInt 0" big_findings]
  have b4: "list_all2 recast (rows (data_quality_output big_findings))
        (take (length (rows (data_quality_output big_findings)))
           (rows (fst (check_val_range demo_env [(''RATES'', ''RATE'')] (PyInt 0) big_findings))))"
    by blast
  from l1 l2 l3 g b1 b2 b3 b4 show ?thesis by blast
qed

subsection \<open>A turn that raises\<close>



subsection \<open>Formatting twice\<close>

lemma str_nat_last: "str_nat n \<noteq> [] \<and> last (str_nat n) = digit_char (n mod 10)"
  by (subst (1 2) str_nat.simps) simp

lemma digit_char_not_D: "m < 10 \<Longrightarrow> digit_char m \<noteq> CHR ''D''"
proof
  assume m: "m < 10" and "digit_char m = CHR ''D''"
  then have "(of_char (digit_char m) :: nat) = of_char (CHR ''D'')" by simp
  then have "(48 + m) mod 256 = 68" by (simp add: digit_char_def)
  with m show False by simp
qed

lemma level_column_not_id: "d' @ ''_LVL_ID'' @ str_nat t \<noteq> d @ ''_ID''"
proof
  assume "d' @ ''_LVL_ID'' @ str_nat t = d @ ''_ID''"
  then have "last (d' @ ''_LVL_ID'' @ str_nat t) = last (d @ ''_ID'')" by simp
  then have "digit_char (t mod 10) = CHR ''D''"
    using str_nat_last[of t] by simp
  then show False using digit_char_not_D[of "t mod 10"] by simp
qed

lemma level_number_not_id: "d' @ ''_LVL'' \<noteq> d @ ''_ID''"
proof
  assume "d' @ ''_LVL'' = d @ ''_ID''"
  then have "last (d' @ ''_LVL'') = last (d @ ''_ID'')" by simp
  then show False by simp
qed

lemma settled_fixed: "settled env dp p out \<Longrightarrow> fst (format_dimension env dp out p) = out"
  by (cases p) (auto simp: settled_def format_dimension_def Let_def split: sum.splits)

lemma astype_Int64_Inr: "astype_Int64 vs = Inr ids \<Longrightarrow> length ids = length vs"
  by (auto simp: astype_Int64_def split: if_splits)

lemma format_dimension_cases:
  "fst (format_dimension env dp out (d, h)) = out
   \<or> (\<exists>t ids. length ids = length (rows out) \<and>
        fst (format_dimension env dp out (d, h))
          = drop_col (d @ ''_ID'')
              (assign_col (d @ ''_LVL'') (\<lambda>r. IntV (int t))
                 (assign_series (d @ ''_LVL_ID'' @ str_nat t) ids out)))"
proof (cases "d @ ''_ID'' \<in> set (columns out)")
  case False
  then show ?thesis by (simp add: format_dimension_def)
next
  case True
  show ?thesis
  proof (cases "read_csv env (dp @ h @ ''.csv'')")
    case (Inl e)
    with True show ?thesis by (simp add: format_dimension_def)
  next
    case (Inr hier)
    show ?thesis
    proof (cases "astype_Int64 (column_values out (d @ ''_ID''))")
      case (Inl e)
      with True Inr show ?thesis by (simp add: format_dimension_def)
    next
      case ids: (Inr ids)
      then have "length ids = length (rows out)"
        by (auto dest!: astype_Int64_Inr simp: column_values_def)
      moreover have "fst (format_dimension env dp out (d, h))
          = drop_col (d @ ''_ID'')
              (assign_col (d @ ''_LVL'')
                 (\<lambda>r. IntV (int (length (filter (\<lambda>col. str_in (d @ ''_LVL_ID'') col)
                                            (columns hier)) + 1)))
                 (assign_series (d @ ''_LVL_ID'' @ str_nat
                     (length (filter (\<lambda>col. str_in (d @ ''_LVL_ID'') col) (columns hier)) + 1))
                    ids out))"
        using True Inr ids by (simp add: format_dimension_def Let_def)
      ultimately show ?thesis by blast
    qed
  qed
qed

lemma columns_formatted:
  "columns (drop_col i (assign_col l f (assign_series n ids out)))
     = removeAll i (columns (assign_col l f (assign_series n ids out)))"
  "c \<in> set (columns (assign_col l f (assign_series n ids out)))
     \<longleftrightarrow> c \<in> set (columns out) \<or> c = n \<or> c = l"
  by (auto simp: drop_col_def assign_col_def assign_series_def)

lemma column_values_formatted:
  assumes "length ids = length (rows out)" and "c \<noteq> i" and "c \<noteq> l" and "c \<noteq> n"
  shows "column_values (drop_col i (assign_col l f (assign_series n ids out))) c
           = column_values out c"
proof -
  have "map (\<lambda>x. cell (AList.delete i (AList.update l (f (AList.update n (snd x) (fst x)))
                    (AList.update n (snd x) (fst x)))) c) (zip rs ids)
        = map (\<lambda>r. cell r c) rs" if "length ids = length rs" for rs
    using that assms(2-4)
    by (induction ids rs rule: list_induct2) (simp_all add: cell_delete cell_update)
  with assms(1) show ?thesis
    by (simp add: column_values_def drop_col_def assign_col_def assign_series_def o_def
        case_prod_unfold)
qed

lemma settled_after: "settled env dp p (fst (format_dimension env dp out p))"
  by (cases p)
    (auto simp: settled_def format_dimension_def Let_def drop_col_def split: sum.splits)

lemma settled_kept:
  assumes "settled env dp p out"
  shows "settled env dp p (fst (format_dimension env dp out q))"
proof (cases q)
  case (Pair d' h')
  obtain d h where p: "p = (d, h)" by (cases p)
  show ?thesis
    using format_dimension_cases[of env dp out d' h']
  proof (elim disjE exE conjE)
    assume "fst (format_dimension env dp out (d', h')) = out"
    with assms show ?thesis unfolding Pair by simp
  next
    fix t ids
    assume len: "length ids = length (rows out)"
      and eq: "fst (format_dimension env dp out (d', h'))
          = drop_col (d' @ ''_ID'')
              (assign_col (d' @ ''_LVL'') (\<lambda>r. IntV (int t))
                 (assign_series (d' @ ''_LVL_ID'' @ str_nat t) ids out))"
    show ?thesis
    proof (cases "d' = d")
      case True
      then show ?thesis
        unfolding Pair eq p by (simp add: settled_def columns_formatted(1))
    next
      case False
      then have ne: "d @ ''_ID'' \<noteq> d' @ ''_ID''" by simp
      have n1: "d @ ''_ID'' \<noteq> d' @ ''_LVL''"
        and n2: "d @ ''_ID'' \<noteq> d' @ ''_LVL_ID'' @ str_nat t"
        using level_number_not_id[of d' d] level_column_not_id[of d' t d] by simp_all
      have cv: "column_values (fst (format_dimension env dp out (d', h'))) (d @ ''_ID'')
          = column_values out (d @ ''_ID'')"
        unfolding eq by (rule column_values_formatted[OF len ne n1 n2])
      have cs: "d @ ''_ID'' \<in> set (columns (fst (format_dimension env dp out (d', h'))))
          \<longleftrightarrow> d @ ''_ID'' \<in> set (columns out)"
        unfolding eq columns_formatted(1) using ne n1 n2
        by (simp add: columns_formatted(2))
      from assms show ?thesis
        unfolding Pair p settled_def by (simp add: cv cs)
    qed
  qed
qed

lemma settled_loop: "settled env dp p out \<Longrightarrow> settled env dp p (format_loop env dp ps out)"
  by (induction ps arbitrary: out) (simp_all add: settled_kept)

lemma format_loop_settles: "p \<in> set ps \<Longrightarrow> settled env dp p (format_loop env dp ps out)"
proof (induction ps arbitrary: out)
  case Nil
  then show ?case by simp
next
  case (Cons q ps)
  show ?case
  proof (cases "p = q")
    case True
    then show ?thesis
      by (simp add: settled_loop settled_after)
  next
    case False
    with Cons.prems have "p \<in> set ps" by simp
    then show ?thesis by (simp add: Cons.IH)
  qed
qed

lemma format_loop_fixed:
  "(\<And>p. p \<in> set ps \<Longrightarrow> settled env dp p out) \<Longrightarrow> format_loop env dp ps out = out"
  by (induction ps) (simp_all add: settled_fixed)

text \<open>
  C6. Formatting the findings a second time, with the same dimensions and
  the same files, changes nothing. An empty table is returned as it is; on
  any other table, after the first run every dimension is one the formatter
  leaves alone: its identifier column is no longer in the table (it was
  dropped, or was never there), or the dimension fails as it failed before.
\<close>

theorem format_output_idempotent:
  "format_output env lvl_data (format_output env lvl_data self) = format_output env lvl_data self
   \<and> (empty_frame (data_quality_output self) \<longrightarrow> format_output env lvl_data self = self)
   \<and> (\<not> empty_frame (data_quality_output self) \<longrightarrow>
        (\<forall>p \<in> set lvl_data.
           settled env (data_path self) p (data_quality_output (format_output env lvl_data self))
           \<and> fst (format_dimension env (data_path self)
                    (data_quality_output (format_output env lvl_data self)) p)
               = data_quality_output (format_output env lvl_data self)))"
proof (cases "empty_frame (data_quality_output self)")
  case True
  then show ?thesis by (simp add: format_output_def)
next
  case False
  let ?F = "format_loop env (data_path self) lvl_data (data_quality_output self)"
  have fixed: "format_loop env (data_path self) lvl_data ?F = ?F"
    by (rule format_loop_fixed) (rule format_loop_settles)
  have "settled env (data_path self) p ?F
      \<and> fst (format_dimension env (data_path self) ?F p) = ?F" if "p \<in> set lvl_data" for p
    using format_loop_settles[OF that] by (simp add: settled_fixed)
  with False fixed show ?thesis by (simp add: format_output_def)
qed

theorem format_output_idempotent_witness:
  "\<not> empty_frame (data_quality_output (findings_of_size 2))
   \<and> data_quality_output (format_output demo_env
          [(''PRODUCT'', ''PRODUCT_HIER''), (''LOCATION'', ''MISSING'')] (findings_of_size 2))
       = \<lparr>columns = [''WARNING_TYPE'', ''PRODUCT_LVL_ID3'', ''PRODUCT_LVL''],
          rows = [[(''WARNING_TYPE'', Str ''val_range''), (''PRODUCT_LVL_ID3'', IntV 1),
                   (''PRODUCT_LVL'', IntV 3)],
                  [(''WARNING_TYPE'', Str ''val_range''), (''PRODUCT_LVL_ID3'', IntV 1),
                   (''PRODUCT_LVL'', IntV 3)]]\<rparr>
   \<and> format_output demo_env [(''PRODUCT'', ''PRODUCT_HIER''), (''LOCATION'', ''MISSING'')]
         (format_output demo_env [(''PRODUCT'', ''PRODUCT_HIER''), (''LOCATION'', ''MISSING'')]
            (findings_of_size 2))
       = format_output demo_env [(''PRODUCT'', ''PRODUCT_HIER''), (''LOCATION'', ''MISSING'')]
           (findings_of_size 2)
   \<and> settled demo_env ''data/'' (''PRODUCT'', ''PRODUCT_HIER'')
         (data_quality_output (format_output demo_env
            [(''PRODUCT'', ''PRODUCT_HIER''), (''LOCATION'', ''MISSING'')] (findings_of_size 2)))"
proof -
  have ne: "\<not> empty_frame (data_quality_output (findings_of_size 2))"
    by code_simp
  have dp: "data_path (findings_of_size 2) = ''data/''"
    by (simp add: findings_of_size_def)
  have out: "data_quality_output (format_output demo_env
          [(''PRODUCT'', ''PRODUCT_HIER''), (''LOCATION'', ''MISSING'')] (findings_of_size 2))
       = \<lparr>columns = [''WARNING_TYPE'', ''PRODUCT_LVL_ID3'', ''PRODUCT_LVL''],
          rows = [[(''WARNING_TYPE'', Str ''val_range''), (''PRODUCT_LVL_ID3'', IntV 1),
                   (''PRODUCT_LVL'', IntV 3)],
                  [(''WARNING_TYPE'', Str ''val_range''), (''PRODUCT_LVL_ID3'', IntV 1),
                   (''PRODUCT_LVL'', IntV 3)]]\<rparr>"
    by code_simp
  note t = format_output_idempotent[of demo_env
      "[(''PRODUCT'', ''PRODUCT_HIER''), (''LOCATION'', ''MISSING'')]" "findings_of_size 2"]
  from t have g1: "format_output demo_env [(''PRODUCT'', ''PRODUCT_HIER''), (''LOCATION'', ''MISSING'')]
         (format_output demo_env [(''PRODUCT'', ''PRODUCT_HIER''), (''LOCATION'', ''MISSING'')]
            (findings_of_size 2))
       = format_output demo_env [(''PRODUCT'', ''PRODUCT_HIER''), (''LOCATION'', ''MISSING'')]
           (findings_of_size 2)"
    by blast
  from t ne have "\<forall>p \<in> set [(''PRODUCT'', ''PRODUCT_HIER''), (''LOCATION'', ''MISSING'')].
      settled demo_env (data_path (findings_of_size 2)) p
         (data_quality_output (format_output demo_env
            [(''PRODUCT'', ''PRODUCT_HIER''), (''LOCATION'', ''MISSING'')] (findings_of_size 2)))"
    by blast
  then have g2: "settled demo_env ''data/'' (''PRODUCT'', ''PRODUCT_HIER'')
         (data_quality_output (format_output demo_env
            [(''PRODUCT'', ''PRODUCT_HIER''), (''LOCATION'', ''MISSING'')] (findings_of_size 2)))"
    unfolding dp by simp
  from ne out g1 g2 show ?thesis by blast
qed

end
